theory Spec2Isabelle
  imports Complex_Main "HOL-Library.Multiset"
begin

section \<open>Python values and errors\<close>

text \<open>
  The script \<^verbatim>\<open>plot_dr_over_ifpr.py\<close> is one straight-line block. It is embedded here
  stage by stage: the table after type coercion, the rounding of the threshold column,
  the two index sequences, the plotting loops, the legend, and the creation of the
  output directory followed by the save.

  Every exception the script can raise in these stages is a value of \<open>py_error\<close>.
  Subscripting a list or array with a non-negative index raises \<open>IndexError\<close> when the
  index is not below the length.
\<close>

datatype py_error =
    IndexError
  | FileExistsError
  | FileNotFoundError
  | NotADirectoryError
  | IsADirectoryError
  | PermissionError
  | OSError

definition getitem :: "'a list \<Rightarrow> nat \<Rightarrow> py_error + 'a" where
  "getitem xs i = (if i < length xs then Inr (xs ! i) else Inl IndexError)"

section \<open>The table\<close>

text \<open>
  A data frame is the list of its rows in index order. After \<^verbatim>\<open>astype\<close> the columns
  \<^verbatim>\<open>det_ratio\<close>, \<^verbatim>\<open>fp_rate\<close> and \<^verbatim>\<open>threshold\<close> hold floats and \<^verbatim>\<open>window_size\<close> holds
  integers; \<^verbatim>\<open>ifp_rate\<close> is read as it was parsed. A float cell is represented by the
  number it denotes: the script only compares these cells and hands them on to the
  plotting calls. The one arithmetical operation on them, \<^verbatim>\<open>np.around\<close>, is a parameter
  \<open>around1\<close> of the pipeline. The not-a-number value, which is unequal to itself, has no
  representative in this type.
\<close>

record row =
  det_ratio :: real
  fp_rate :: real
  ifp_rate :: real
  threshold :: real
  window_size :: int

type_synonym dataframe = "row list"

text \<open>
  \<^verbatim>\<open>dataframe['threshold'] = np.around(dataframe['threshold'], decimals=1)\<close>:
  the column is replaced, row by row, by its image under the rounding function.
\<close>

definition round_threshold :: "(real \<Rightarrow> real) \<Rightarrow> dataframe \<Rightarrow> dataframe" where
  "round_threshold around1 df = map (\<lambda>r. r\<lparr>threshold := around1 (threshold r)\<rparr>) df"

text \<open>
  Modelled from the spec: the function \<^verbatim>\<open>np.around\<close> with \<^verbatim>\<open>decimals=1\<close>, which is not
  part of the sources. The spec has the loader round the threshold to one decimal
  place, with banker's rounding: the value is scaled by ten, rounded to the nearest
  integer with ties going to the even one, and scaled back. The arithmetic is exact
  here; the rounding errors of double precision are not represented.
\<close>

definition np_around1 :: "real \<Rightarrow> real" where
  "np_around1 x =
     (let f = \<lfloor>x * 10\<rfloor>; d = x * 10 - real_of_int f
      in real_of_int (if d < 1 / 2 then f else if 1 / 2 < d then f + 1
                      else if even f then f else f + 1) / 10)"

section \<open>The index sequences\<close>

text \<open>
  \<^verbatim>\<open>np.unique\<close> sorts its argument and keeps the first element of every run of equal
  neighbours; \<^verbatim>\<open>sorted\<close> is a stable ascending sort.
\<close>

definition np_unique :: "'a::linorder list \<Rightarrow> 'a list" where
  "np_unique xs = remdups_adj (sort xs)"

definition sorted_py :: "'a::linorder list \<Rightarrow> 'a list" where
  "sorted_py xs = sort xs"

definition thresholds :: "dataframe \<Rightarrow> real list" where
  "thresholds df = sorted_py (np_unique (map threshold df))"

definition window_sizes :: "dataframe \<Rightarrow> int list" where
  "window_sizes df = sorted_py (np_unique (map window_size df))"

section \<open>Markers and colours\<close>

definition markers_list :: "string list" where
  "markers_list = [''o'', ''v'', ''P'', ''s'', ''D'', ''x'']"

definition markers :: "nat \<Rightarrow> py_error + string" where
  "markers index = getitem markers_list (index mod length markers_list)"

text \<open>
  The colour of series \<open>i\<close> is the name \<^verbatim>\<open>f'C{i}'\<close>, kept here as \<open>CN i\<close>. The plotting
  library reads such a name as a position in its colour cycle, taken modulo the length
  of the cycle; \<open>cycle_index\<close> is that reading, with the length of the cycle a parameter.
\<close>

datatype color = CN nat

fun cycle_index :: "nat \<Rightarrow> color \<Rightarrow> nat" where
  "cycle_index palette_size (CN n) = n mod palette_size"

section \<open>The plotting loop\<close>

text \<open>
  What \<^verbatim>\<open>ax.plot\<close> and \<^verbatim>\<open>ax.annotate\<close> add to the axes: a point marker at \<open>(x, y)\<close> with
  a colour and a marker shape, and a text (the window size) anchored at \<open>(x, y)\<close> with
  a colour. The remaining keyword arguments of both calls are constants of the script.
  The axes are the list of what has been drawn, oldest first.
\<close>

datatype artist =
    Marker real real color string
  | Annotation int real real color

type_synonym axes = "artist list"

fun is_marker :: "artist \<Rightarrow> bool" where
  "is_marker (Marker x y c m) = True"
| "is_marker (Annotation w x y c) = False"

fun xy :: "artist \<Rightarrow> real \<times> real" where
  "xy (Marker x y c m) = (x, y)"
| "xy (Annotation w x y c) = (x, y)"

fun artist_color :: "artist \<Rightarrow> color" where
  "artist_color (Marker x y c m) = c"
| "artist_color (Annotation w x y c) = c"

fun marker_shape :: "artist \<Rightarrow> string option" where
  "marker_shape (Marker x y c m) = Some m"
| "marker_shape (Annotation w x y c) = None"

text \<open>
  The selection loop over the window sizes (lines 79 to 82). \<open>line\<close> holds the rows of
  one threshold; \<open>X\<close> and \<open>Y\<close> are the lists the loop appends to. \<^verbatim>\<open>.values[0]\<close> raises
  when no row of the line has the window size.
\<close>

fun select_points ::
  "dataframe \<Rightarrow> int list \<Rightarrow> real list \<Rightarrow> real list \<Rightarrow> py_error + (real list \<times> real list)" where
  "select_points line [] X Y = Inr (X, Y)"
| "select_points line (w # ws) X Y =
     (let datapoint = filter (\<lambda>r. window_size r = w) line in
      case getitem (map ifp_rate datapoint) 0 of
        Inl e \<Rightarrow> Inl e
      | Inr x \<Rightarrow>
          (case getitem (map det_ratio datapoint) 0 of
             Inl e \<Rightarrow> Inl e
           | Inr y \<Rightarrow> select_points line ws (X @ [x]) (Y @ [y])))"

text \<open>
  The drawing loop over \<^verbatim>\<open>zip(X, Y, window_sizes)\<close> (lines 85 to 89). It returns the
  axes together with the exception that stopped it, if any.
\<close>

fun draw_points :: "axes \<Rightarrow> nat \<Rightarrow> (real \<times> real \<times> int) list \<Rightarrow> axes \<times> py_error option" where
  "draw_points ax i [] = (ax, None)"
| "draw_points ax i ((x, y, w) # rest) =
     (case markers i of
        Inl e \<Rightarrow> (ax, Some e)
      | Inr m \<Rightarrow> draw_points (ax @ [Marker x y (CN i) m, Annotation w x y (CN i)]) i rest)"

text \<open>The loop over \<^verbatim>\<open>enumerate(thresholds)\<close> (lines 70 to 89).\<close>

fun plot_loop ::
  "dataframe \<Rightarrow> int list \<Rightarrow> axes \<Rightarrow> (nat \<times> real) list \<Rightarrow> axes \<times> py_error option" where
  "plot_loop df ws ax [] = (ax, None)"
| "plot_loop df ws ax ((i, t) # rest) =
     (let line = filter (\<lambda>r. threshold r = t) df in
      case select_points line ws [] [] of
        Inl e \<Rightarrow> (ax, Some e)
      | Inr (X, Y) \<Rightarrow>
          (case draw_points ax i (zip X (zip Y ws)) of
             (ax', Some e) \<Rightarrow> (ax', Some e)
           | (ax', None) \<Rightarrow> plot_loop df ws ax' rest))"

section \<open>The legend\<close>

text \<open>
  One \<^verbatim>\<open>Line2D\<close> handle per enumerated threshold (lines 115 to 118); its label is the
  text \<^verbatim>\<open>Threshold\<close> followed by the threshold, kept here as the threshold itself.
\<close>

record line2d =
  label :: real
  line_color :: color
  line_marker :: string

fun legend_elements :: "(nat \<times> real) list \<Rightarrow> py_error + line2d list" where
  "legend_elements [] = Inr []"
| "legend_elements ((i, t) # rest) =
     (case markers i of
        Inl e \<Rightarrow> Inl e
      | Inr m \<Rightarrow>
          (case legend_elements rest of
             Inl e \<Rightarrow> Inl e
           | Inr handles \<Rightarrow> Inr (\<lparr>label = t, line_color = CN i, line_marker = m\<rparr> # handles)))"

section \<open>Styling, output directory and save\<close>

text \<open>
  The figure as the script leaves it: what was drawn, the axis limits and the scale of
  the x axis once they have been set (lines 97 to 101), and the legend once it has been
  attached (line 119). Axis labels, grid, tick sizes and the size of the page are
  constants of the script and are not kept.
\<close>

record figure =
  artists :: axes
  xlim :: "(real \<times> real) option"
  ylim :: "(real \<times> real) option"
  xscale :: "string option"
  legend :: "line2d list option"

text \<open>
  The part of the file system the script touches. The path \<^verbatim>\<open>./plots\<close> is absent, a
  regular file, a symbolic link to nothing, or a directory; in a directory the path
  \<^verbatim>\<open>dr_over_ifpr.pdf\<close> is free, a file holding a figure, a file cut short by a failed
  write, or itself a directory. Two faults of the operating system may be pending:
  one that the creation of a directory in the working directory meets, and one that
  the writing of the file meets (no permission, no space left).
\<close>

datatype pdf_entry = NoFile | File figure | Truncated | SubDirectory

datatype plots_path = Absent | RegularFile | DanglingLink | Directory pdf_entry

datatype os_fault = PermissionDenied | DiskFull

fun fault_error :: "os_fault \<Rightarrow> py_error" where
  "fault_error PermissionDenied = PermissionError"
| "fault_error DiskFull = OSError"

record filesystem =
  plots_dir :: plots_path
  mkdir_fault :: "os_fault option"
  save_fault :: "os_fault option"

text \<open>
  \<^verbatim>\<open>Path(plots_dir).mkdir(exist_ok=True)\<close> (line 129): an error of the operating system
  is ignored exactly when the path is a directory afterwards. An existing directory is
  therefore accepted whatever the fault; a regular file or a dangling link at the path
  raises \<open>FileExistsError\<close>; an absent path is created unless the fault strikes.
\<close>

definition mkdir_exist_ok :: "filesystem \<Rightarrow> py_error + filesystem" where
  "mkdir_exist_ok fs =
     (case plots_dir fs of
        Directory entry \<Rightarrow> Inr fs
      | RegularFile \<Rightarrow> Inl FileExistsError
      | DanglingLink \<Rightarrow> Inl FileExistsError
      | Absent \<Rightarrow>
          (case mkdir_fault fs of
             Some f \<Rightarrow> Inl (fault_error f)
           | None \<Rightarrow> Inr (fs\<lparr>plots_dir := Directory NoFile\<rparr>)))"

text \<open>
  \<^verbatim>\<open>plt.savefig(file_path, ...)\<close> (line 134) opens the file for writing and writes the
  figure. It returns the file system it leaves and the exception it raised, if any: a
  refused permission leaves the file as it was, a disk that fills up leaves it cut short.
\<close>

definition savefig :: "filesystem \<Rightarrow> figure \<Rightarrow> filesystem \<times> py_error option" where
  "savefig fs figure =
     (case plots_dir fs of
        Absent \<Rightarrow> (fs, Some FileNotFoundError)
      | DanglingLink \<Rightarrow> (fs, Some FileNotFoundError)
      | RegularFile \<Rightarrow> (fs, Some NotADirectoryError)
      | Directory entry \<Rightarrow>
          (if entry = SubDirectory then (fs, Some IsADirectoryError)
           else case save_fault fs of
                  Some PermissionDenied \<Rightarrow> (fs, Some PermissionError)
                | Some DiskFull \<Rightarrow> (fs\<lparr>plots_dir := Directory Truncated\<rparr>, Some OSError)
                | None \<Rightarrow> (fs\<lparr>plots_dir := Directory (File figure)\<rparr>, None)))"

text \<open>
  A run of the script from the table that \<^verbatim>\<open>astype\<close> returns: the figure it has built
  when it stops, the exception that stopped it (if any), and the file system it leaves
  behind.
\<close>

record run =
  fig :: figure
  raised :: "py_error option"
  plots :: filesystem

definition main :: "(real \<Rightarrow> real) \<Rightarrow> dataframe \<Rightarrow> filesystem \<Rightarrow> run" where
  "main around1 table p =
     (let dataframe = round_threshold around1 table;
          ts = thresholds dataframe;
          ws = window_sizes dataframe
      in case plot_loop dataframe ws [] (enumerate 0 ts) of
           (ax, Some e) \<Rightarrow>
             \<lparr>fig = \<lparr>artists = ax, xlim = None, ylim = None, xscale = None, legend = None\<rparr>,
              raised = Some e, plots = p\<rparr>
         | (ax, None) \<Rightarrow>
             (let styled = \<lparr>artists = ax, xlim = Some (3 / 10, 6000),
                            ylim = Some (82 / 100, 98 / 100), xscale = Some ''log'',
                            legend = None\<rparr>
              in case legend_elements (enumerate 0 ts) of
                   Inl e \<Rightarrow> \<lparr>fig = styled, raised = Some e, plots = p\<rparr>
                 | Inr handles \<Rightarrow>
                     (let final = styled\<lparr>legend := Some handles\<rparr>
                      in case mkdir_exist_ok p of
                           Inl e \<Rightarrow> \<lparr>fig = final, raised = Some e, plots = p\<rparr>
                         | Inr p' \<Rightarrow>
                             (case savefig p' final of
                                (p'', status) \<Rightarrow> \<lparr>fig = final, raised = status, plots = p''\<rparr>))))"

section \<open>Notions used in the proofs\<close>

text \<open>
  The first row, in input order, with a given threshold and window size; whether every
  window size has a row on the line of a threshold; and what one pass of the threshold
  loop adds to the axes when it completes. The lemmas below relate them to the loops.
\<close>

definition first_row :: "dataframe \<Rightarrow> real \<Rightarrow> int \<Rightarrow> row option" where
  "first_row df t w = find (\<lambda>r. threshold r = t \<and> window_size r = w) df"

definition covered :: "dataframe \<Rightarrow> int list \<Rightarrow> real \<Rightarrow> bool" where
  "covered df ws t = (\<forall>w\<in>set ws. \<exists>r\<in>set df. threshold r = t \<and> window_size r = w)"

definition pair_artists :: "dataframe \<Rightarrow> nat \<Rightarrow> real \<Rightarrow> int \<Rightarrow> artist list" where
  "pair_artists df i t w =
     (let r = the (first_row df t w)
      in [Marker (ifp_rate r) (det_ratio r) (CN i) (markers_list ! (i mod 6)),
          Annotation w (ifp_rate r) (det_ratio r) (CN i)])"

definition series :: "dataframe \<Rightarrow> int list \<Rightarrow> nat \<times> real \<Rightarrow> artist list" where
  "series df ws it = concat (map (pair_artists df (fst it) (snd it)) ws)"

section \<open>Example inputs\<close>

text \<open>
  Tables on which the theorems are instantiated, with \<open>np_around1\<close> for the rounding
  parameter, a state of the file system with no \<^verbatim>\<open>./plots\<close> and no fault pending, and
  the figure that the script draws from \<open>example_table\<close>.
  \<open>example_table\<close> has a row for each of its four pairs once its thresholds are rounded
  to 0.5 and 0.9; \<open>gap_table\<close> lacks the pair (0.5, 100); \<open>first_dup\<close> and \<open>later_dup\<close>
  are two rows for the pair (0.5, 10), and \<open>other_row\<close> a row for another pair.
\<close>

definition example_table :: dataframe where
  "example_table =
    [\<lparr>det_ratio = 90 / 100, fp_rate = 1 / 100, ifp_rate = 100, threshold = 88 / 100, window_size = 100\<rparr>,
     \<lparr>det_ratio = 85 / 100, fp_rate = 1 / 10, ifp_rate = 10, threshold = 52 / 100, window_size = 10\<rparr>,
     \<lparr>det_ratio = 95 / 100, fp_rate = 1 / 10, ifp_rate = 10, threshold = 9 / 10, window_size = 10\<rparr>,
     \<lparr>det_ratio = 88 / 100, fp_rate = 1 / 100, ifp_rate = 100, threshold = 1 / 2, window_size = 100\<rparr>]"

definition gap_table :: dataframe where
  "gap_table =
    [\<lparr>det_ratio = 90 / 100, fp_rate = 1 / 100, ifp_rate = 100, threshold = 88 / 100, window_size = 100\<rparr>,
     \<lparr>det_ratio = 85 / 100, fp_rate = 1 / 10, ifp_rate = 10, threshold = 52 / 100, window_size = 10\<rparr>,
     \<lparr>det_ratio = 95 / 100, fp_rate = 1 / 10, ifp_rate = 10, threshold = 9 / 10, window_size = 10\<rparr>]"

definition first_dup :: row where
  "first_dup = \<lparr>det_ratio = 85 / 100, fp_rate = 1 / 10, ifp_rate = 10, threshold = 52 / 100, window_size = 10\<rparr>"

definition later_dup :: row where
  "later_dup = \<lparr>det_ratio = 83 / 100, fp_rate = 1 / 2, ifp_rate = 2, threshold = 49 / 100, window_size = 10\<rparr>"

definition fresh_fs :: filesystem where
  "fresh_fs = \<lparr>plots_dir = Absent, mkdir_fault = None, save_fault = None\<rparr>"

definition example_figure :: figure where
  "example_figure =
     \<lparr>artists =
        [Marker 10 (85 / 100) (CN 0) ''o'', Annotation 10 10 (85 / 100) (CN 0),
         Marker 100 (88 / 100) (CN 0) ''o'', Annotation 100 100 (88 / 100) (CN 0),
         Marker 10 (95 / 100) (CN 1) ''v'', Annotation 10 10 (95 / 100) (CN 1),
         Marker 100 (90 / 100) (CN 1) ''v'', Annotation 100 100 (90 / 100) (CN 1)],
      xlim = Some (3 / 10, 6000), ylim = Some (82 / 100, 98 / 100), xscale = Some ''log'',
      legend = Some [\<lparr>label = 1 / 2, line_color = CN 0, line_marker = ''o''\<rparr>,
                     \<lparr>label = 9 / 10, line_color = CN 1, line_marker = ''v''\<rparr>]\<rparr>"

definition other_row :: row where
  "other_row = \<lparr>det_ratio = 95 / 100, fp_rate = 1 / 10, ifp_rate = 10, threshold = 9 / 10, window_size = 10\<rparr>"

section \<open>Marker selection\<close>

lemma length_markers_list: "length markers_list = 6"
  by (simp add: markers_list_def)

lemma markers_Inr: "markers i = Inr (markers_list ! (i mod 6))"
  by (simp add: markers_def getitem_def length_markers_list)

text \<open>
  Claim C9. The marker selection never subscripts its list out of range: for every
  index \<open>i\<close> it returns a marker, namely the entry at position \<open>i mod 6\<close>, and it is
  cyclic with period 6: \<open>markers i = markers (i mod 6) = markers (i + 6)\<close>.
\<close>

theorem markers_total_cyclic:
  "markers i = Inr (markers_list ! (i mod 6)) \<and> i mod 6 < length markers_list
   \<and> markers i = markers (i mod 6) \<and> markers i = markers (i + 6)"
  by (simp add: markers_def getitem_def length_markers_list)

section \<open>The indexer\<close>

lemma distinct_remdups_adj_sorted: "sorted xs \<Longrightarrow> distinct (remdups_adj xs)"
  by (induct xs rule: remdups_adj.induct) auto

lemma np_unique_sorted: "sorted (np_unique xs)"
  unfolding np_unique_def by simp

lemma np_unique_distinct: "distinct (np_unique xs)"
  unfolding np_unique_def by (simp add: distinct_remdups_adj_sorted)

lemma np_unique_set: "set (np_unique xs) = set xs"
  unfolding np_unique_def by simp

lemma index_sequence: "sorted_py (np_unique xs) = sorted_list_of_set (set xs)"
proof -
  have "sorted_py (np_unique xs) = np_unique xs"
    unfolding sorted_py_def by (rule sorted_sort_id) (rule np_unique_sorted)
  moreover have "np_unique xs = sorted_list_of_set (set xs)"
    by (rule sorted_distinct_set_unique)
       (simp_all add: np_unique_sorted np_unique_distinct np_unique_set)
  ultimately show ?thesis by simp
qed

lemma thresholds_eq: "thresholds df = sorted_list_of_set (threshold ` set df)"
  by (simp add: thresholds_def index_sequence)

lemma window_sizes_eq: "window_sizes df = sorted_list_of_set (window_size ` set df)"
  by (simp add: window_sizes_def index_sequence)

text \<open>
  Claim C6. For every table the indexer returns the distinct thresholds in strictly
  ascending order and the distinct window sizes in strictly ascending order: each
  sequence has no duplicates and holds exactly the values of its column, and both are
  the same for every reordering of the rows.
\<close>

theorem indexer_ascending_distinct:
  "sorted_wrt (<) (thresholds df) \<and> distinct (thresholds df)
   \<and> set (thresholds df) = threshold ` set df
   \<and> sorted_wrt (<) (window_sizes df) \<and> distinct (window_sizes df)
   \<and> set (window_sizes df) = window_size ` set df
   \<and> (\<forall>df'. mset df' = mset df \<longrightarrow>
         thresholds df' = thresholds df \<and> window_sizes df' = window_sizes df)"
proof -
  have "thresholds df' = thresholds df \<and> window_sizes df' = window_sizes df"
    if "mset df' = mset df" for df'
  proof -
    have "set df' = set df"
      using that by (rule mset_eq_setD)
    then show ?thesis
      by (simp add: thresholds_eq window_sizes_eq)
  qed
  moreover have "sorted_wrt (<) (thresholds df) \<and> distinct (thresholds df)
      \<and> set (thresholds df) = threshold ` set df"
    by (simp add: thresholds_eq strict_sorted_list_of_set)
  moreover have "sorted_wrt (<) (window_sizes df) \<and> distinct (window_sizes df)
      \<and> set (window_sizes df) = window_size ` set df"
    by (simp add: window_sizes_eq strict_sorted_list_of_set)
  ultimately show ?thesis
    by blast
qed

theorem indexer_ascending_distinct_witness:
  "mset (rev example_table) = mset example_table
   \<and> thresholds (rev example_table) = thresholds example_table
   \<and> window_sizes (rev example_table) = window_sizes example_table
   \<and> thresholds example_table = [1 / 2, 52 / 100, 88 / 100, 9 / 10]
   \<and> window_sizes example_table = [10, 100]"
proof -
  have h: "mset (rev example_table) = mset example_table" by simp
  have "thresholds example_table = [1 / 2, 52 / 100, 88 / 100, 9 / 10]"
    by (simp add: example_table_def thresholds_def np_unique_def sorted_py_def)
  moreover have "window_sizes example_table = [10, 100]"
    by (simp add: example_table_def window_sizes_def np_unique_def sorted_py_def)
  ultimately show ?thesis
    using h indexer_ascending_distinct [of example_table] by blast
qed

section \<open>The rounding step\<close>

text \<open>
  Claim C10. The rounding step changes nothing but the threshold column: the table
  keeps its number of rows, and in every row the detection ratio, the false-positive
  rate, the inverse false-positive rate and the window size are what they were; the
  threshold is the rounded one.
\<close>

theorem rounding_frame:
  "length (round_threshold around1 df) = length df
   \<and> (\<forall>i<length df.
         det_ratio (round_threshold around1 df ! i) = det_ratio (df ! i)
       \<and> fp_rate (round_threshold around1 df ! i) = fp_rate (df ! i)
       \<and> ifp_rate (round_threshold around1 df ! i) = ifp_rate (df ! i)
       \<and> window_size (round_threshold around1 df ! i) = window_size (df ! i)
       \<and> threshold (round_threshold around1 df ! i) = around1 (threshold (df ! i)))"
  by (simp add: round_threshold_def)

theorem rounding_frame_witness:
  "(1::nat) < length example_table
   \<and> length (round_threshold np_around1 example_table) = 4
   \<and> det_ratio (round_threshold np_around1 example_table ! 1) = 85 / 100
   \<and> fp_rate (round_threshold np_around1 example_table ! 1) = 1 / 10
   \<and> ifp_rate (round_threshold np_around1 example_table ! 1) = 10
   \<and> window_size (round_threshold np_around1 example_table ! 1) = 10
   \<and> threshold (round_threshold np_around1 example_table ! 1) = 5 / 10"
proof -
  have h: "(1::nat) < length example_table"
    by (simp add: example_table_def)
  have e: "example_table ! 1 = \<lparr>det_ratio = 85 / 100, fp_rate = 1 / 10, ifp_rate = 10, threshold = 52 / 100, window_size = 10\<rparr>"
    by (simp add: example_table_def)
  have l: "length example_table = 4"
    by (simp add: example_table_def)
  have a: "np_around1 (52 / 100) = 5 / 10"
    by (simp add: np_around1_def)
  have "length (round_threshold np_around1 example_table) = length example_table
      \<and> det_ratio (round_threshold np_around1 example_table ! 1) = det_ratio (example_table ! 1)
      \<and> fp_rate (round_threshold np_around1 example_table ! 1) = fp_rate (example_table ! 1)
      \<and> ifp_rate (round_threshold np_around1 example_table ! 1) = ifp_rate (example_table ! 1)
      \<and> window_size (round_threshold np_around1 example_table ! 1) = window_size (example_table ! 1)
      \<and> threshold (round_threshold np_around1 example_table ! 1)
          = np_around1 (threshold (example_table ! 1))"
    using rounding_frame [of np_around1 example_table] h by blast
  then show ?thesis
    using h by (simp only: e l a row.simps)
qed

section \<open>Rounding to one decimal place\<close>

lemma np_around1_tenths: "\<exists>n::int. np_around1 x = real_of_int n / 10"
  by (simp add: np_around1_def Let_def)

lemma np_around1_of_tenths: "np_around1 (real_of_int n / 10) = real_of_int n / 10"
  by (simp add: np_around1_def Let_def)

lemma np_around1_near: "\<bar>np_around1 x - x\<bar> \<le> 1 / 20"
proof -
  define y where "y = x * 10"
  define f where "f = real_of_int \<lfloor>y\<rfloor>"
  have b: "f \<le> y" "y < f + 1"
    unfolding f_def by linarith+
  have x: "x = y / 10"
    by (simp add: y_def)
  have r: "np_around1 x =
      (if y - f < 1 / 2 then f else if 1 / 2 < y - f then f + 1
       else if even \<lfloor>y\<rfloor> then f else f + 1) / 10"
    by (simp add: np_around1_def Let_def y_def f_def)
  have "\<bar>np_around1 x - y / 10\<bar> \<le> 1 / 20"
    unfolding r using b by (auto simp: abs_if field_simps split: if_splits)
  then show ?thesis
    by (simp only: x [symmetric])
qed

text \<open>
  Claim C7. Rounding to one decimal place is idempotent: rounding a value that is
  already a result of the rounding leaves it unchanged, for every input, and so does
  the loader's rounding step applied to a table it has already rounded. The rounding
  returns a whole number of tenths that lies within one twentieth of its argument.
\<close>

theorem around_idempotent:
  "np_around1 (np_around1 x) = np_around1 x
   \<and> (\<exists>n::int. np_around1 x = real_of_int n / 10)
   \<and> \<bar>np_around1 x - x\<bar> \<le> 1 / 20
   \<and> round_threshold np_around1 (round_threshold np_around1 df) = round_threshold np_around1 df"
proof -
  obtain n :: int where n: "np_around1 x = real_of_int n / 10"
    using np_around1_tenths by blast
  have idem: "np_around1 (np_around1 y) = np_around1 y" for y
  proof -
    obtain m :: int where "np_around1 y = real_of_int m / 10"
      using np_around1_tenths by blast
    then show ?thesis
      by (simp only: np_around1_of_tenths)
  qed
  have "round_threshold np_around1 (round_threshold np_around1 df) = round_threshold np_around1 df"
    by (simp add: round_threshold_def idem)
  with idem n np_around1_near show ?thesis
    by blast
qed

section \<open>The loops in closed form\<close>

lemma getitem_map_0:
  "getitem (map f xs) 0 = (if xs = [] then Inl IndexError else Inr (f (hd xs)))"
  by (cases xs) (simp_all add: getitem_def)

lemma select_points_char:
  "select_points line ws X Y =
     (if \<forall>w\<in>set ws. \<exists>r\<in>set line. window_size r = w
      then Inr (X @ map (\<lambda>w. ifp_rate (hd (filter (\<lambda>r. window_size r = w) line))) ws,
                Y @ map (\<lambda>w. det_ratio (hd (filter (\<lambda>r. window_size r = w) line))) ws)
      else Inl IndexError)"
proof (induction ws arbitrary: X Y)
  case Nil
  show ?case by simp
next
  case (Cons w ws)
  show ?case
  proof (cases "\<exists>r\<in>set line. window_size r = w")
    case True
    then have "filter (\<lambda>r. window_size r = w) line \<noteq> []"
      by (simp add: filter_empty_conv)
    then show ?thesis
      using True by (simp add: getitem_map_0 Cons.IH Let_def)
  next
    case False
    then have "filter (\<lambda>r. window_size r = w) line = []"
      by (simp add: filter_empty_conv)
    then show ?thesis
      using False by (simp add: getitem_map_0 Let_def)
  qed
qed

lemma draw_points_char:
  "draw_points ax i pts =
     (ax @ concat (map (\<lambda>(x, y, w). [Marker x y (CN i) (markers_list ! (i mod 6)),
                                       Annotation w x y (CN i)]) pts), None)"
  by (induction pts arbitrary: ax) (auto simp: markers_Inr)

lemma first_row_SomeD:
  "first_row df t w = Some r \<Longrightarrow> r \<in> set df \<and> threshold r = t \<and> window_size r = w"
  unfolding first_row_def by (induction df) (auto split: if_splits)

lemma first_row_Some:
  "\<exists>r\<in>set df. threshold r = t \<and> window_size r = w \<Longrightarrow> \<exists>r. first_row df t w = Some r"
  unfolding first_row_def by (induction df) auto

lemma hd_filter_filter:
  "\<exists>r\<in>set df. threshold r = t \<and> window_size r = w \<Longrightarrow>
   hd (filter (\<lambda>r. threshold r = t \<and> window_size r = w) df) = the (first_row df t w)"
  by (induction df) (auto simp: first_row_def)

lemma zip3_map:
  "zip (map f ws) (zip (map g ws) ws) = map (\<lambda>w. (f w, g w, w)) ws"
  by (induction ws) simp_all

lemma iteration_char:
  assumes "covered df ws t"
  shows "select_points (filter (\<lambda>r. threshold r = t) df) ws [] [] =
           Inr (map (\<lambda>w. ifp_rate (the (first_row df t w))) ws,
                map (\<lambda>w. det_ratio (the (first_row df t w))) ws)"
proof -
  have c: "\<forall>w\<in>set ws. \<exists>r\<in>set (filter (\<lambda>r. threshold r = t) df). window_size r = w"
    using assms by (auto simp: covered_def)
  have "map (\<lambda>w. f (hd (filter (\<lambda>r. window_size r = w) (filter (\<lambda>r. threshold r = t) df)))) ws
        = map (\<lambda>w. f (the (first_row df t w))) ws" for f :: "row \<Rightarrow> real"
    using assms by (intro map_cong refl) (simp add: covered_def hd_filter_filter)
  then show ?thesis
    using c by (simp add: select_points_char)
qed

lemma iteration_fail:
  assumes "\<not> covered df ws t"
  shows "select_points (filter (\<lambda>r. threshold r = t) df) ws [] [] = Inl IndexError"
proof -
  have "\<not> (\<forall>w\<in>set ws. \<exists>r\<in>set (filter (\<lambda>r. threshold r = t) df). window_size r = w)"
    using assms by (auto simp: covered_def)
  then show ?thesis
    by (simp only: select_points_char if_False)
qed

lemma draw_series:
  "draw_points ax i (map (\<lambda>w. (ifp_rate (the (first_row df t w)), det_ratio (the (first_row df t w)), w)) ws)
     = (ax @ series df ws (i, t), None)"
  by (simp add: draw_points_char series_def pair_artists_def [abs_def] comp_def Let_def)

lemma plot_loop_char:
  "plot_loop df ws ax its =
     (ax @ concat (map (series df ws) (takeWhile (\<lambda>it. covered df ws (snd it)) its)),
      if \<forall>it\<in>set its. covered df ws (snd it) then None else Some IndexError)"
proof (induction its arbitrary: ax)
  case Nil
  show ?case by simp
next
  case (Cons it its)
  obtain i t where it: "it = (i, t)" by (cases it)
  show ?case
  proof (cases "covered df ws t")
    case True
    then show ?thesis
      by (simp add: it iteration_char zip3_map draw_series Cons.IH)
  next
    case False
    then show ?thesis
      by (simp add: it iteration_fail)
  qed
qed

lemma legend_elements_char:
  "legend_elements its =
     Inr (map (\<lambda>(i, t). \<lparr>label = t, line_color = CN i,
                           line_marker = markers_list ! (i mod 6)\<rparr>) its)"
  by (induction its) (auto simp: markers_Inr)

lemma plot_loop_raises:
  "plot_loop df ws ax its = (ax', Some e) \<Longrightarrow> e = IndexError"
  by (simp add: plot_loop_char split: if_splits)

lemma snd_set_enumerate: "snd ` set (enumerate n xs) = set xs"
  by (metis map_snd_enumerate set_map)

lemma plot_loop_all_covered:
  assumes "\<forall>t\<in>set ts. covered df ws t"
  shows "plot_loop df ws ax (enumerate n ts) = (ax @ concat (map (series df ws) (enumerate n ts)), None)"
proof -
  have c: "\<forall>it\<in>set (enumerate n ts). covered df ws (snd it)"
    using assms snd_set_enumerate [of n ts] by force
  then have tw: "takeWhile (\<lambda>it. covered df ws (snd it)) (enumerate n ts) = enumerate n ts"
    by (simp add: takeWhile_eq_all_conv)
  show ?thesis
    unfolding plot_loop_char tw using c by simp
qed

lemma plot_loop_some_uncovered:
  assumes "t \<in> set ts" and "\<not> covered df ws t"
  shows "snd (plot_loop df ws ax (enumerate n ts)) = Some IndexError"
proof -
  obtain it where "it \<in> set (enumerate n ts)" and "snd it = t"
    using assms(1) snd_set_enumerate [of n ts] by force
  then have "\<not> (\<forall>it\<in>set (enumerate n ts). covered df ws (snd it))"
    using assms(2) by blast
  then show ?thesis
    by (simp add: plot_loop_char)
qed

lemma filter_is_marker_pair:
  "filter is_marker (pair_artists df i t w) =
     [Marker (ifp_rate (the (first_row df t w))) (det_ratio (the (first_row df t w))) (CN i)
        (markers_list ! (i mod 6))]"
  by (simp add: pair_artists_def Let_def)

lemma series_markers:
  assumes "\<forall>w\<in>set ws'. \<exists>r\<in>set df. threshold r = t \<and> window_size r = w"
  shows "list_all2 (\<lambda>a (t, w). \<exists>r. first_row df t w = Some r \<and> xy a = (ifp_rate r, det_ratio r))
           (filter is_marker (concat (map (pair_artists df i t) ws'))) (map (Pair t) ws')"
  using assms
proof (induction ws')
  case Nil
  show ?case by simp
next
  case (Cons w ws')
  from Cons.prems obtain r where "first_row df t w = Some r"
    using first_row_Some [of df t w] by auto
  then show ?case
    using Cons by (simp add: filter_is_marker_pair)
qed

lemma all_series_markers:
  assumes "\<forall>it\<in>set its. covered df ws (snd it)"
  shows "list_all2 (\<lambda>a (t, w). \<exists>r. first_row df t w = Some r \<and> xy a = (ifp_rate r, det_ratio r))
           (filter is_marker (concat (map (series df ws) its))) (List.product (map snd its) ws)"
  using assms
proof (induction its)
  case Nil
  show ?case by simp
next
  case (Cons it its)
  have "list_all2 (\<lambda>a (t, w). \<exists>r. first_row df t w = Some r \<and> xy a = (ifp_rate r, det_ratio r))
          (filter is_marker (series df ws it)) (map (Pair (snd it)) ws)"
    unfolding series_def using Cons.prems by (intro series_markers) (simp add: covered_def)
  then show ?case
    using Cons by (simp add: list_all2_appendI)
qed

lemma find_append_cases:
  "find P (xs @ ys) = (case find P xs of None \<Rightarrow> find P ys | Some x \<Rightarrow> Some x)"
  by (induction xs) auto

lemma first_row_drop_later_duplicate:
  assumes "threshold r' = threshold r" and "window_size r' = window_size r"
  shows "first_row (pre @ r # mid @ r' # post) t w = first_row (pre @ r # mid @ post) t w"
  using assms by (auto simp: first_row_def find_append_cases split: option.splits)

lemma covered_first_row: "covered df ws t \<longleftrightarrow> (\<forall>w\<in>set ws. first_row df t w \<noteq> None)"
  by (auto simp: covered_def first_row_def find_None_iff)

lemma plot_loop_first_row_cong:
  assumes "\<And>t w. first_row df t w = first_row df' t w"
  shows "plot_loop df ws ax its = plot_loop df' ws ax its"
proof -
  have "covered df ws = covered df' ws"
    by (rule ext) (simp add: covered_first_row assms)
  moreover have "series df ws = series df' ws"
    by (rule ext) (simp add: series_def pair_artists_def [abs_def] assms)
  ultimately show ?thesis
    by (simp add: plot_loop_char)
qed

lemma select_points_first_row:
  assumes "select_points (filter (\<lambda>r. threshold r = t) df) ws [] [] = Inr (X, Y)"
  shows "X = map (\<lambda>w. ifp_rate (the (first_row df t w))) ws
       \<and> Y = map (\<lambda>w. det_ratio (the (first_row df t w))) ws
       \<and> (\<forall>w\<in>set ws. first_row df t w \<noteq> None)"
proof (cases "covered df ws t")
  case True
  then show ?thesis
    using assms by (simp add: iteration_char covered_first_row)
next
  case False
  then show ?thesis
    using assms by (simp add: iteration_fail)
qed

lemma plot_loop_single:
  "fst (plot_loop df ws [] [(N, t)]) = (if covered df ws t then series df ws (N, t) else [])"
  by (simp add: plot_loop_char)

lemma series_style:
  assumes "a \<in> set (series df ws (N, t))" and "covered df ws t"
  shows "artist_color a = CN N
       \<and> (is_marker a \<longrightarrow> marker_shape a = Some (markers_list ! (N mod 6)))
       \<and> (\<exists>r\<in>set df. threshold r = t \<and> xy a = (ifp_rate r, det_ratio r))"
proof -
  from assms(1) obtain w where w: "w \<in> set ws" and a: "a \<in> set (pair_artists df N t w)"
    by (auto simp: series_def)
  from w assms(2) obtain r where r: "first_row df t w = Some r"
    using first_row_Some [of df t w] by (auto simp: covered_def)
  then have "r \<in> set df \<and> threshold r = t"
    by (simp add: first_row_SomeD)
  then show ?thesis
    using a r by (auto simp: pair_artists_def)
qed

lemma series_marker_count:
  "length (filter is_marker (series df ws it)) = length ws"
  unfolding series_def by (induction ws) (simp_all add: filter_is_marker_pair)

lemma takeWhile_enumerate:
  "takeWhile P (enumerate 0 ts) = map (\<lambda>N. (N, ts ! N)) [0..<length (takeWhile P (enumerate 0 ts))]"
proof -
  let ?k = "length (takeWhile P (enumerate 0 ts))"
  have k: "?k \<le> length ts"
    using length_takeWhile_le [of P "enumerate 0 ts"] by simp
  have "takeWhile P (enumerate 0 ts) = take ?k (enumerate 0 ts)"
    by (rule takeWhile_eq_take)
  also have "\<dots> = map (\<lambda>N. (N, ts ! N)) [0..<?k]"
    using k by (intro nth_equalityI) (simp_all add: nth_enumerate_eq)
  finally show ?thesis .
qed

lemma fault_error_neq [simp]:
  "fault_error f \<noteq> IndexError" "fault_error f \<noteq> FileExistsError"
  by (cases f; simp)+

lemma main_artists:
  "artists (fig (main around1 table p)) =
     fst (plot_loop (round_threshold around1 table) (window_sizes (round_threshold around1 table)) []
            (enumerate 0 (thresholds (round_threshold around1 table))))"
  by (simp add: main_def Let_def legend_elements_char split: prod.splits option.splits sum.splits)

lemma main_raised_IndexError:
  "raised (main around1 table p) = Some IndexError \<longleftrightarrow>
     snd (plot_loop (round_threshold around1 table) (window_sizes (round_threshold around1 table)) []
            (enumerate 0 (thresholds (round_threshold around1 table)))) \<noteq> None"
  by (auto simp: main_def Let_def legend_elements_char mkdir_exist_ok_def savefig_def
        dest: plot_loop_raises
        split: prod.splits option.splits sum.splits plots_path.splits os_fault.splits if_splits)

lemma main_after_plot:
  assumes "raised (main around1 table p) \<noteq> Some IndexError"
  shows "main around1 table p =
     (case mkdir_exist_ok p of
        Inl e \<Rightarrow> \<lparr>fig = fig (main around1 table p), raised = Some e, plots = p\<rparr>
      | Inr p' \<Rightarrow>
          \<lparr>fig = fig (main around1 table p),
           raised = snd (savefig p' (fig (main around1 table p))),
           plots = fst (savefig p' (fig (main around1 table p)))\<rparr>)"
proof -
  let ?pl = "plot_loop (round_threshold around1 table) (window_sizes (round_threshold around1 table)) []
            (enumerate 0 (thresholds (round_threshold around1 table)))"
  from assms have "snd ?pl = None"
    by (simp add: main_raised_IndexError)
  then obtain ax where "?pl = (ax, None)"
    by (cases ?pl) simp
  then show ?thesis
    by (simp add: main_def Let_def legend_elements_char split: prod.splits sum.splits)
qed

lemma find_append_hit:
  assumes "P y"
  shows "\<exists>q\<in>set (xs @ [y]). find P (xs @ y # ys) = Some q"
  using assms by (induction xs) auto

section \<open>The example inputs evaluated\<close>

lemma example_frame:
  "round_threshold np_around1 example_table =
    [\<lparr>det_ratio = 90 / 100, fp_rate = 1 / 100, ifp_rate = 100, threshold = 9 / 10, window_size = 100\<rparr>,
     \<lparr>det_ratio = 85 / 100, fp_rate = 1 / 10, ifp_rate = 10, threshold = 1 / 2, window_size = 10\<rparr>,
     \<lparr>det_ratio = 95 / 100, fp_rate = 1 / 10, ifp_rate = 10, threshold = 9 / 10, window_size = 10\<rparr>,
     \<lparr>det_ratio = 88 / 100, fp_rate = 1 / 100, ifp_rate = 100, threshold = 1 / 2, window_size = 100\<rparr>]"
  by (simp add: round_threshold_def example_table_def np_around1_def Let_def)

lemma example_index:
  "thresholds (round_threshold np_around1 example_table) = [1 / 2, 9 / 10]"
  "window_sizes (round_threshold np_around1 example_table) = [10, 100]"
  by (simp_all add: example_frame thresholds_def window_sizes_def np_unique_def sorted_py_def)

lemma gap_frame:
  "round_threshold np_around1 gap_table =
    [\<lparr>det_ratio = 90 / 100, fp_rate = 1 / 100, ifp_rate = 100, threshold = 9 / 10, window_size = 100\<rparr>,
     \<lparr>det_ratio = 85 / 100, fp_rate = 1 / 10, ifp_rate = 10, threshold = 1 / 2, window_size = 10\<rparr>,
     \<lparr>det_ratio = 95 / 100, fp_rate = 1 / 10, ifp_rate = 10, threshold = 9 / 10, window_size = 10\<rparr>]"
  by (simp add: round_threshold_def gap_table_def np_around1_def Let_def)

lemma gap_index:
  "thresholds (round_threshold np_around1 gap_table) = [1 / 2, 9 / 10]"
  "window_sizes (round_threshold np_around1 gap_table) = [10, 100]"
  by (simp_all add: gap_frame thresholds_def window_sizes_def np_unique_def sorted_py_def)

lemma example_plot:
  "plot_loop (round_threshold np_around1 example_table) [10, 100] [] (enumerate 0 [1 / 2, 9 / 10]) =
     ([Marker 10 (85 / 100) (CN 0) ''o'', Annotation 10 10 (85 / 100) (CN 0),
       Marker 100 (88 / 100) (CN 0) ''o'', Annotation 100 100 (88 / 100) (CN 0),
       Marker 10 (95 / 100) (CN 1) ''v'', Annotation 10 10 (95 / 100) (CN 1),
       Marker 100 (90 / 100) (CN 1) ''v'', Annotation 100 100 (90 / 100) (CN 1)], None)"
  by (simp add: example_frame getitem_def markers_def markers_list_def)

lemma example_legend:
  "legend_elements (enumerate 0 [1 / 2, 9 / 10]) =
     Inr [\<lparr>label = 1 / 2, line_color = CN 0, line_marker = ''o''\<rparr>,
          \<lparr>label = 9 / 10, line_color = CN 1, line_marker = ''v''\<rparr>]"
  by (simp add: getitem_def markers_def markers_list_def)

lemma example_pass:
  "fst (plot_loop (round_threshold np_around1 example_table) [10, 100] []
          [(1, [1 / 2, 9 / 10] ! 1)]) =
     [Marker 10 (95 / 100) (CN 1) ''v'', Annotation 10 10 (95 / 100) (CN 1),
      Marker 100 (90 / 100) (CN 1) ''v'', Annotation 100 100 (90 / 100) (CN 1)]"
  by (simp add: example_frame getitem_def markers_def markers_list_def)

lemma example_main:
  "main np_around1 example_table p =
     (case mkdir_exist_ok p of
        Inl e \<Rightarrow> \<lparr>fig = example_figure, raised = Some e, plots = p\<rparr>
      | Inr p' \<Rightarrow>
          (case savefig p' example_figure of
             (p'', status) \<Rightarrow> \<lparr>fig = example_figure, raised = status, plots = p''\<rparr>))"
  unfolding main_def Let_def example_index example_plot example_legend example_figure_def
  by (simp split: sum.splits prod.splits)

lemma example_first_run:
  "main np_around1 example_table fresh_fs =
     \<lparr>fig = example_figure, raised = None,
      plots = \<lparr>plots_dir = Directory (File example_figure), mkdir_fault = None, save_fault = None\<rparr>\<rparr>"
  by (simp add: example_main mkdir_exist_ok_def savefig_def fresh_fs_def)

lemma example_second_run:
  "main np_around1 example_table
     \<lparr>plots_dir = Directory (File example_figure), mkdir_fault = None, save_fault = None\<rparr> =
     \<lparr>fig = example_figure, raised = None,
      plots = \<lparr>plots_dir = Directory (File example_figure), mkdir_fault = None, save_fault = None\<rparr>\<rparr>"
  by (simp add: example_main mkdir_exist_ok_def savefig_def)

section \<open>Point markers under full coverage\<close>

text \<open>
  Claim C2. When every pair of a distinct threshold and a distinct window size has a
  row, the plotting loop completes and has drawn as many point markers as there are
  pairs, (number of thresholds) times (number of window sizes): in drawing order the
  markers correspond one to one to the pairs, no pair occurring twice, and each marker
  sits at the inverse false-positive rate and detection ratio of a row of its pair.
\<close>

theorem full_coverage_marker_count:
  assumes "\<forall>t\<in>set (thresholds df). \<forall>w\<in>set (window_sizes df).
             \<exists>r\<in>set df. threshold r = t \<and> window_size r = w"
  shows "\<exists>ax. plot_loop df (window_sizes df) [] (enumerate 0 (thresholds df)) = (ax, None)
     \<and> length (filter is_marker ax) = length (thresholds df) * length (window_sizes df)
     \<and> list_all2 (\<lambda>a (t, w). \<exists>r\<in>set df. threshold r = t \<and> window_size r = w
                                  \<and> xy a = (ifp_rate r, det_ratio r))
         (filter is_marker ax) (List.product (thresholds df) (window_sizes df))
     \<and> distinct (List.product (thresholds df) (window_sizes df))"
proof -
  let ?ts = "thresholds df" and ?ws = "window_sizes df"
  let ?ax = "concat (map (series df ?ws) (enumerate 0 ?ts))"
  have cov: "\<forall>t\<in>set ?ts. covered df ?ws t"
    using assms by (simp add: covered_def)
  then have run: "plot_loop df ?ws [] (enumerate 0 ?ts) = (?ax, None)"
    using plot_loop_all_covered [of ?ts df ?ws "[]" 0] by simp
  have "\<forall>it\<in>set (enumerate 0 ?ts). covered df ?ws (snd it)"
    using cov snd_set_enumerate [of 0 ?ts] by force
  then have "list_all2 (\<lambda>a (t, w). \<exists>r. first_row df t w = Some r \<and> xy a = (ifp_rate r, det_ratio r))
      (filter is_marker ?ax) (List.product (map snd (enumerate 0 ?ts)) ?ws)"
    by (rule all_series_markers)
  then have first: "list_all2 (\<lambda>a (t, w). \<exists>r. first_row df t w = Some r \<and> xy a = (ifp_rate r, det_ratio r))
      (filter is_marker ?ax) (List.product ?ts ?ws)"
    by simp
  from first have corr: "list_all2 (\<lambda>a (t, w). \<exists>r\<in>set df. threshold r = t \<and> window_size r = w
                                  \<and> xy a = (ifp_rate r, det_ratio r))
      (filter is_marker ?ax) (List.product ?ts ?ws)"
    by (rule list_all2_mono) (auto dest: first_row_SomeD)
  then have "length (filter is_marker ?ax) = length ?ts * length ?ws"
    by (simp add: list_all2_lengthD)
  moreover have "distinct (List.product ?ts ?ws)"
    by (simp add: distinct_product thresholds_eq window_sizes_eq)
  ultimately show ?thesis
    using run corr by blast
qed

theorem full_coverage_marker_count_witness:
  "(\<exists>ax. plot_loop (round_threshold np_around1 example_table)
            (window_sizes (round_threshold np_around1 example_table)) []
            (enumerate 0 (thresholds (round_threshold np_around1 example_table))) = (ax, None)
         \<and> length (filter is_marker ax) = 2 * 2)
   \<and> length (thresholds (round_threshold np_around1 example_table)) = 2
   \<and> length (window_sizes (round_threshold np_around1 example_table)) = 2"
proof -
  let ?df = "round_threshold np_around1 example_table"
  have cov: "\<forall>t\<in>set (thresholds ?df). \<forall>w\<in>set (window_sizes ?df).
               \<exists>r\<in>set ?df. threshold r = t \<and> window_size r = w"
    unfolding example_index by (simp add: example_frame)
  from full_coverage_marker_count [OF cov] show ?thesis
    by (auto simp: example_index)
qed

section \<open>A missing pair\<close>

text \<open>
  Claim C3. When some distinct threshold and some distinct window size of the loaded
  table have no row in common, the run raises \<open>IndexError\<close>: the selection of the
  points of that threshold raises it, the legend is never attached, and \<^verbatim>\<open>./plots\<close>
  is left exactly as it was found, so that neither the directory is created nor the
  file written.
\<close>

theorem missing_pair_fails_before_save:
  assumes "t \<in> set (thresholds (round_threshold around1 table))"
    and "w \<in> set (window_sizes (round_threshold around1 table))"
    and "\<forall>r\<in>set (round_threshold around1 table). \<not> (threshold r = t \<and> window_size r = w)"
  shows "raised (main around1 table p) = Some IndexError
     \<and> plots (main around1 table p) = p
     \<and> legend (fig (main around1 table p)) = None
     \<and> select_points (filter (\<lambda>r. threshold r = t) (round_threshold around1 table))
          (window_sizes (round_threshold around1 table)) [] [] = Inl IndexError"
proof -
  let ?df = "round_threshold around1 table"
  have nc: "\<not> covered ?df (window_sizes ?df) t"
    using assms(2,3) by (auto simp: covered_def)
  have "snd (plot_loop ?df (window_sizes ?df) [] (enumerate 0 (thresholds ?df))) = Some IndexError"
    using assms(1) nc by (rule plot_loop_some_uncovered)
  then obtain ax where
    "plot_loop ?df (window_sizes ?df) [] (enumerate 0 (thresholds ?df)) = (ax, Some IndexError)"
    by (cases "plot_loop ?df (window_sizes ?df) [] (enumerate 0 (thresholds ?df))") simp
  then have "raised (main around1 table p) = Some IndexError
     \<and> plots (main around1 table p) = p \<and> legend (fig (main around1 table p)) = None"
    by (simp add: main_def)
  then show ?thesis
    using nc by (simp add: iteration_fail)
qed

theorem missing_pair_fails_before_save_witness:
  "1 / 2 \<in> set (thresholds (round_threshold np_around1 gap_table))
   \<and> 100 \<in> set (window_sizes (round_threshold np_around1 gap_table))
   \<and> raised (main np_around1 gap_table fresh_fs) = Some IndexError
   \<and> plots (main np_around1 gap_table fresh_fs) = fresh_fs
   \<and> legend (fig (main np_around1 gap_table fresh_fs)) = None"
proof -
  let ?df = "round_threshold np_around1 gap_table"
  have t: "1 / 2 \<in> set (thresholds ?df)" and w: "100 \<in> set (window_sizes ?df)"
    by (simp_all add: gap_index)
  have none: "\<forall>r\<in>set ?df. \<not> (threshold r = 1 / 2 \<and> window_size r = 100)"
    by (simp add: gap_frame)
  from missing_pair_fails_before_save [OF t w none, of fresh_fs] t w show ?thesis
    by simp
qed

section \<open>Duplicate rows\<close>

text \<open>
  Claim C4. When a table holds a later row with the threshold (after rounding) and
  window size of an earlier row, the later row does not affect the plot: the figure is
  the one drawn without it. The point markers of the figure correspond, in drawing
  order, to the pairs of the thresholds whose passes completed (all thresholds, unless
  the run raises \<open>IndexError\<close>) with the window sizes, and each marker sits at the
  inverse false-positive rate and detection ratio of the first row, in input order, with
  the threshold and window size of its pair. For the pair of the duplicated rows that
  first row is the earlier row or a row before it. Whenever the selection step returns,
  the point it selected for each window size is taken from the first such row.
\<close>

theorem first_match_wins:
  fixes around1 :: "real \<Rightarrow> real" and pre mid post :: dataframe and r r' :: row
  defines "df \<equiv> round_threshold around1 (pre @ r # mid @ r' # post)"
  assumes "around1 (threshold r') = around1 (threshold r)"
    and "window_size r' = window_size r"
  shows "fig (main around1 (pre @ r # mid @ r' # post) p) = fig (main around1 (pre @ r # mid @ post) p)
     \<and> list_all2
          (\<lambda>a (t, w). \<exists>q. find (\<lambda>x. threshold x = t \<and> window_size x = w) df = Some q
                           \<and> xy a = (ifp_rate q, det_ratio q))
          (filter is_marker (artists (fig (main around1 (pre @ r # mid @ r' # post) p))))
          (List.product (takeWhile (covered df (window_sizes df)) (thresholds df)) (window_sizes df))
     \<and> (raised (main around1 (pre @ r # mid @ r' # post) p) \<noteq> Some IndexError \<longrightarrow>
          takeWhile (covered df (window_sizes df)) (thresholds df) = thresholds df)
     \<and> (\<exists>q\<in>set (round_threshold around1 (pre @ [r])).
          find (\<lambda>x. threshold x = around1 (threshold r) \<and> window_size x = window_size r) df = Some q)
     \<and> (select_points (filter (\<lambda>x. threshold x = t) df') ws [] [] = Inr (X, Y) \<longrightarrow>
          length X = length ws \<and> length Y = length ws
        \<and> (\<forall>j<length ws. \<exists>q. find (\<lambda>x. threshold x = t \<and> window_size x = ws ! j) df' = Some q
                              \<and> X ! j = ifp_rate q \<and> Y ! j = det_ratio q))"
proof -
  let ?T = "pre @ r # mid @ r' # post"
  let ?rnd = "\<lambda>x. x\<lparr>threshold := around1 (threshold x)\<rparr>"
  let ?d = "round_threshold around1 (pre @ r # mid @ post)"
  have df: "df = map ?rnd pre @ ?rnd r # map ?rnd mid @ ?rnd r' # map ?rnd post"
    and d: "?d = map ?rnd pre @ ?rnd r # map ?rnd mid @ map ?rnd post"
    by (simp_all add: df_def round_threshold_def)
  have same: "threshold (?rnd r') = threshold (?rnd r)" "window_size (?rnd r') = window_size (?rnd r)"
    using assms(2,3) by simp_all
  have fr: "first_row df t w = first_row ?d t w" for t w
    unfolding df d using same by (rule first_row_drop_later_duplicate)
  have "threshold ` set df = threshold ` set ?d"
    unfolding df d using same by auto
  then have ts: "thresholds df = thresholds ?d"
    by (simp only: thresholds_eq)
  have "window_size ` set df = window_size ` set ?d"
    unfolding df d using same by auto
  then have wss: "window_sizes df = window_sizes ?d"
    by (simp only: window_sizes_eq)
  have pl: "plot_loop df ws ax its = plot_loop ?d ws ax its" for ws ax its
    using fr by (rule plot_loop_first_row_cong)
  have figs: "fig (main around1 ?T p) = fig (main around1 (pre @ r # mid @ post) p)"
    unfolding main_def Let_def df_def [symmetric] ts wss pl ..
  have sel: "select_points (filter (\<lambda>x. threshold x = t) df') ws [] [] = Inr (X, Y) \<longrightarrow>
          length X = length ws \<and> length Y = length ws
        \<and> (\<forall>j<length ws. \<exists>q. find (\<lambda>x. threshold x = t \<and> window_size x = ws ! j) df' = Some q
                              \<and> X ! j = ifp_rate q \<and> Y ! j = det_ratio q)"
  proof
    assume "select_points (filter (\<lambda>x. threshold x = t) df') ws [] [] = Inr (X, Y)"
    note s = select_points_first_row [OF this]
    have "\<exists>q. find (\<lambda>x. threshold x = t \<and> window_size x = ws ! j) df' = Some q
            \<and> X ! j = ifp_rate q \<and> Y ! j = det_ratio q" if "j < length ws" for j
    proof -
      from that s obtain q where "first_row df' t (ws ! j) = Some q"
        by (meson not_Some_eq nth_mem)
      then show ?thesis
        using that s by (simp add: first_row_def)
    qed
    then show "length X = length ws \<and> length Y = length ws
        \<and> (\<forall>j<length ws. \<exists>q. find (\<lambda>x. threshold x = t \<and> window_size x = ws ! j) df' = Some q
                              \<and> X ! j = ifp_rate q \<and> Y ! j = det_ratio q)"
      using s by simp
  qed
  let ?ws = "window_sizes df" and ?ts = "thresholds df"
  let ?P = "\<lambda>it. covered df ?ws (snd it)"
  let ?Q = "\<lambda>a (t, w). \<exists>q. find (\<lambda>x. threshold x = t \<and> window_size x = w) df = Some q
                           \<and> xy a = (ifp_rate q, det_ratio q)"
  have art: "artists (fig (main around1 ?T p))
      = concat (map (series df ?ws) (takeWhile ?P (enumerate 0 ?ts)))"
    by (simp add: main_artists df_def plot_loop_char)
  have "\<forall>it\<in>set (takeWhile ?P (enumerate 0 ?ts)). covered df ?ws (snd it)"
    by (auto dest: set_takeWhileD)
  then have "list_all2
      (\<lambda>a (t, w). \<exists>r. first_row df t w = Some r \<and> xy a = (ifp_rate r, det_ratio r))
      (filter is_marker (concat (map (series df ?ws) (takeWhile ?P (enumerate 0 ?ts)))))
      (List.product (map snd (takeWhile ?P (enumerate 0 ?ts))) ?ws)"
    by (rule all_series_markers)
  moreover have "map snd (takeWhile ?P (enumerate 0 ?ts)) = takeWhile (covered df ?ws) ?ts"
    using takeWhile_map [of "covered df ?ws" snd "enumerate 0 ?ts"] by (simp add: comp_def)
  ultimately have drawn: "list_all2 ?Q (filter is_marker (artists (fig (main around1 ?T p))))
      (List.product (takeWhile (covered df ?ws) ?ts) ?ws)"
    by (simp add: art first_row_def)
  have complete: "raised (main around1 ?T p) \<noteq> Some IndexError \<longrightarrow>
      takeWhile (covered df ?ws) ?ts = ?ts"
  proof
    assume "raised (main around1 ?T p) \<noteq> Some IndexError"
    then have "snd (plot_loop df ?ws [] (enumerate 0 ?ts)) = None"
      by (simp add: main_raised_IndexError df_def)
    then have "\<forall>it\<in>set (enumerate 0 ?ts). covered df ?ws (snd it)"
      by (simp add: plot_loop_char split: if_splits)
    then have "\<forall>t\<in>set ?ts. covered df ?ws t"
      using snd_set_enumerate [of 0 ?ts] by force
    then show "takeWhile (covered df ?ws) ?ts = ?ts"
      by (simp add: takeWhile_eq_all_conv)
  qed
  have "df = map ?rnd pre @ ?rnd r # (map ?rnd mid @ ?rnd r' # map ?rnd post)"
    and "round_threshold around1 (pre @ [r]) = map ?rnd pre @ [?rnd r]"
    by (simp_all add: df_def round_threshold_def)
  moreover have "threshold (?rnd r) = around1 (threshold r) \<and> window_size (?rnd r) = window_size r"
    by simp
  ultimately have hit: "\<exists>q\<in>set (round_threshold around1 (pre @ [r])).
      find (\<lambda>x. threshold x = around1 (threshold r) \<and> window_size x = window_size r) df = Some q"
    using find_append_hit [of "\<lambda>x. threshold x = around1 (threshold r) \<and> window_size x = window_size r"
        "?rnd r" "map ?rnd pre" "map ?rnd mid @ ?rnd r' # map ?rnd post"]
    by simp
  show ?thesis
    by (intro conjI figs drawn complete hit sel)
qed

theorem first_match_wins_witness:
  "np_around1 (threshold later_dup) = np_around1 (threshold first_dup)
   \<and> window_size later_dup = window_size first_dup
   \<and> raised (main np_around1 [first_dup, other_row, later_dup] fresh_fs) = None
   \<and> fig (main np_around1 [first_dup, other_row, later_dup] fresh_fs)
       = fig (main np_around1 [first_dup, other_row] fresh_fs)
   \<and> thresholds (round_threshold np_around1 [first_dup, other_row, later_dup]) = [1 / 2, 9 / 10]
   \<and> window_sizes (round_threshold np_around1 [first_dup, other_row, later_dup]) = [10]
   \<and> list_all2
        (\<lambda>a (t, w). \<exists>q. find (\<lambda>x. threshold x = t \<and> window_size x = w)
                             (round_threshold np_around1 [first_dup, other_row, later_dup]) = Some q
                         \<and> xy a = (ifp_rate q, det_ratio q))
        (filter is_marker (artists (fig (main np_around1 [first_dup, other_row, later_dup] fresh_fs))))
        [(1 / 2, 10), (9 / 10, 10)]
   \<and> map xy (filter is_marker
                (artists (fig (main np_around1 [first_dup, other_row, later_dup] fresh_fs))))
       = [(ifp_rate first_dup, det_ratio first_dup), (ifp_rate other_row, det_ratio other_row)]
   \<and> (\<exists>q\<in>set (round_threshold np_around1 [first_dup]).
         find (\<lambda>x. threshold x = np_around1 (threshold first_dup) \<and> window_size x = window_size first_dup)
           (round_threshold np_around1 [first_dup, other_row, later_dup]) = Some q)
   \<and> select_points
        (filter (\<lambda>x. threshold x = 1 / 2)
           (round_threshold np_around1 [first_dup, other_row, later_dup])) [10] [] []
       = Inr ([ifp_rate first_dup], [det_ratio first_dup])
   \<and> (\<exists>q. find (\<lambda>x. threshold x = 1 / 2 \<and> window_size x = 10)
              (round_threshold np_around1 [first_dup, other_row, later_dup]) = Some q
          \<and> ifp_rate first_dup = ifp_rate q \<and> det_ratio first_dup = det_ratio q)"
proof -
  let ?T = "[first_dup, other_row, later_dup]"
  let ?df = "round_threshold np_around1 ?T"
  have t: "np_around1 (threshold later_dup) = np_around1 (threshold first_dup)"
    by (simp add: later_dup_def first_dup_def np_around1_def Let_def)
  have w: "window_size later_dup = window_size first_dup"
    by (simp add: later_dup_def first_dup_def)
  have frame: "?df =
      [\<lparr>det_ratio = 85 / 100, fp_rate = 1 / 10, ifp_rate = 10, threshold = 1 / 2, window_size = 10\<rparr>,
       \<lparr>det_ratio = 95 / 100, fp_rate = 1 / 10, ifp_rate = 10, threshold = 9 / 10, window_size = 10\<rparr>,
       \<lparr>det_ratio = 83 / 100, fp_rate = 1 / 2, ifp_rate = 2, threshold = 1 / 2, window_size = 10\<rparr>]"
    by (simp add: round_threshold_def later_dup_def first_dup_def other_row_def np_around1_def Let_def)
  have ts: "thresholds ?df = [1 / 2, 9 / 10]" and ws: "window_sizes ?df = [10]"
    by (simp_all add: frame thresholds_def window_sizes_def np_unique_def sorted_py_def)
  have plot: "plot_loop ?df [10] [] (enumerate 0 [1 / 2, 9 / 10]) =
      ([Marker 10 (85 / 100) (CN 0) ''o'', Annotation 10 10 (85 / 100) (CN 0),
        Marker 10 (95 / 100) (CN 1) ''v'', Annotation 10 10 (95 / 100) (CN 1)], None)"
    by (simp add: frame getitem_def markers_def markers_list_def)
  have ok: "raised (main np_around1 ?T fresh_fs) \<noteq> Some IndexError"
    unfolding main_raised_IndexError ts ws plot by simp
  have leg: "legend_elements (enumerate 0 [1 / 2, 9 / 10]) =
      Inr [\<lparr>label = 1 / 2, line_color = CN 0, line_marker = ''o''\<rparr>,
           \<lparr>label = 9 / 10, line_color = CN 1, line_marker = ''v''\<rparr>]"
    by (simp add: getitem_def markers_def markers_list_def)
  have none: "raised (main np_around1 ?T fresh_fs) = None"
    unfolding main_def Let_def ts ws plot leg
    by (simp add: mkdir_exist_ok_def savefig_def fresh_fs_def)
  have coords: "map xy (filter is_marker (artists (fig (main np_around1 ?T fresh_fs))))
      = [(ifp_rate first_dup, det_ratio first_dup), (ifp_rate other_row, det_ratio other_row)]"
    unfolding main_artists ts ws plot by (simp add: first_dup_def other_row_def)
  have sel: "select_points (filter (\<lambda>x. threshold x = 1 / 2) ?df) [10] [] []
      = Inr ([ifp_rate first_dup], [det_ratio first_dup])"
    unfolding frame by (simp add: first_dup_def getitem_def)
  note inst = first_match_wins [OF t w, where pre = "[]" and mid = "[other_row]" and post = "[]"
      and p = fresh_fs and t = "1 / 2" and df' = ?df and ws = "[10]"
      and X = "[ifp_rate first_dup]" and Y = "[det_ratio first_dup]",
      simplified append_Nil append_Cons]
  note figs = inst [THEN conjunct1]
  note all = inst [THEN conjunct2, THEN conjunct2, THEN conjunct1, THEN mp, OF ok]
  note hit = inst [THEN conjunct2, THEN conjunct2, THEN conjunct2, THEN conjunct1]
  have drawn: "list_all2
        (\<lambda>a (t, w). \<exists>q. find (\<lambda>x. threshold x = t \<and> window_size x = w) ?df = Some q
                         \<and> xy a = (ifp_rate q, det_ratio q))
        (filter is_marker (artists (fig (main np_around1 ?T fresh_fs))))
        [(1 / 2, 10), (9 / 10, 10)]"
    using inst [THEN conjunct2, THEN conjunct1] unfolding all unfolding ts ws
    by (simp only: List.product.simps list.map append_Cons append_Nil)
  have "\<forall>j<length [10::int]. \<exists>q. find (\<lambda>x. threshold x = 1 / 2 \<and> window_size x = [10] ! j) ?df = Some q
          \<and> [ifp_rate first_dup] ! j = ifp_rate q \<and> [det_ratio first_dup] ! j = det_ratio q"
    using inst [THEN conjunct2, THEN conjunct2, THEN conjunct2, THEN conjunct2, THEN mp, OF sel]
    by (elim conjE)
  then have "\<exists>q. find (\<lambda>x. threshold x = 1 / 2 \<and> window_size x = [10] ! 0) ?df = Some q
          \<and> [ifp_rate first_dup] ! 0 = ifp_rate q \<and> [det_ratio first_dup] ! 0 = det_ratio q"
    by (elim allE [of _ 0] impE) simp_all
  then have first: "\<exists>q. find (\<lambda>x. threshold x = 1 / 2 \<and> window_size x = 10) ?df = Some q
          \<and> ifp_rate first_dup = ifp_rate q \<and> det_ratio first_dup = det_ratio q"
    by (simp only: nth_Cons_0)
  show ?thesis
    by (intro conjI t w none figs ts ws drawn coords hit sel first)
qed

section \<open>Style of a series and of its legend entry\<close>

text \<open>
  Claim C1. What the plotting loop has drawn is, in order, what its passes for the
  thresholds at positions \<open>0, \<dots>, k - 1\<close> of the ascending sequence drew, with \<open>k\<close> the
  number of thresholds when the loop completes; each such pass draws one marker per
  window size. For every position \<open>N\<close>, legend entry \<open>N\<close> is labelled with threshold \<open>N\<close>
  and has colour name \<open>CN N\<close>, read by the library as cycle position \<open>N\<close> modulo the
  length of the cycle, and the marker at position \<open>N mod 6\<close> of the marker list; and
  everything the pass for \<open>N\<close> draws sits on a row of threshold \<open>N\<close>, has the colour of
  legend entry \<open>N\<close> and, when it is a point marker, its marker shape. The marker list
  is circle, triangle-down, filled plus, square, diamond, x, in this order.
\<close>

theorem threshold_style_binding:
  fixes df :: dataframe
  defines "ts \<equiv> thresholds df" and "ws \<equiv> window_sizes df"
  shows "markers_list = [''o'', ''v'', ''P'', ''s'', ''D'', ''x'']
   \<and> (\<exists>k hs. k \<le> length ts
     \<and> fst (plot_loop df ws [] (enumerate 0 ts))
         = concat (map (\<lambda>N. fst (plot_loop df ws [] [(N, ts ! N)])) [0..<k])
     \<and> (snd (plot_loop df ws [] (enumerate 0 ts)) = None \<longrightarrow> k = length ts)
     \<and> (\<forall>N<k. length (filter is_marker (fst (plot_loop df ws [] [(N, ts ! N)]))) = length ws)
     \<and> legend_elements (enumerate 0 ts) = Inr hs \<and> length hs = length ts
     \<and> (\<forall>N<length ts.
            label (hs ! N) = ts ! N
          \<and> line_color (hs ! N) = CN N
          \<and> line_marker (hs ! N) = markers_list ! (N mod 6)
          \<and> cycle_index c (line_color (hs ! N)) = N mod c
          \<and> (\<forall>a\<in>set (fst (plot_loop df ws [] [(N, ts ! N)])).
                artist_color a = line_color (hs ! N)
              \<and> (is_marker a \<longrightarrow> marker_shape a = Some (line_marker (hs ! N)))
              \<and> (\<exists>r\<in>set df. threshold r = ts ! N \<and> xy a = (ifp_rate r, det_ratio r)))))"
proof -
  let ?P = "\<lambda>it. covered df ws (snd it)"
  let ?k = "length (takeWhile ?P (enumerate 0 ts))"
  let ?hs = "map (\<lambda>(i, t). \<lparr>label = t, line_color = CN i, line_marker = markers_list ! (i mod 6)\<rparr>)
               (enumerate 0 ts)"
  have k: "?k \<le> length ts"
    using length_takeWhile_le [of ?P "enumerate 0 ts"] by simp
  have tw: "takeWhile ?P (enumerate 0 ts) = map (\<lambda>N. (N, ts ! N)) [0..<?k]"
    by (rule takeWhile_enumerate)
  have cov: "covered df ws (ts ! N)" if "N < ?k" for N
  proof -
    have "takeWhile ?P (enumerate 0 ts) ! N \<in> set (takeWhile ?P (enumerate 0 ts))"
      using that by (rule nth_mem)
    then have "?P (takeWhile ?P (enumerate 0 ts) ! N)"
      by (rule set_takeWhileD [THEN conjunct2])
    moreover have "takeWhile ?P (enumerate 0 ts) ! N = (N, ts ! N)"
      using that by (subst tw) simp
    ultimately show ?thesis by simp
  qed
  have one: "series df ws (N, ts ! N) = fst (plot_loop df ws [] [(N, ts ! N)])" if "N < ?k" for N
    using cov [OF that] by (simp only: plot_loop_single if_True)
  have "map (series df ws) (map (\<lambda>N. (N, ts ! N)) [0..<?k])
        = map (\<lambda>N. fst (plot_loop df ws [] [(N, ts ! N)])) [0..<?k]"
    unfolding map_map comp_def by (rule map_cong [OF refl], rule one) simp
  then have "concat (map (series df ws) (takeWhile ?P (enumerate 0 ts)))
        = concat (map (\<lambda>N. fst (plot_loop df ws [] [(N, ts ! N)])) [0..<?k])"
    by (subst tw) (rule arg_cong)
  then have dec: "fst (plot_loop df ws [] (enumerate 0 ts))
        = concat (map (\<lambda>N. fst (plot_loop df ws [] [(N, ts ! N)])) [0..<?k])"
    by (simp add: plot_loop_char)
  have full: "snd (plot_loop df ws [] (enumerate 0 ts)) = None \<longrightarrow> ?k = length ts"
  proof
    assume "snd (plot_loop df ws [] (enumerate 0 ts)) = None"
    then have "\<forall>it\<in>set (enumerate 0 ts). ?P it"
      by (simp add: plot_loop_char split: if_splits)
    then have "takeWhile ?P (enumerate 0 ts) = enumerate 0 ts"
      by (simp add: takeWhile_eq_all_conv)
    then have "?k = length (enumerate 0 ts)"
      by (rule arg_cong)
    then show "?k = length ts" by simp
  qed
  have cnt: "\<forall>N<?k. length (filter is_marker (fst (plot_loop df ws [] [(N, ts ! N)]))) = length ws"
    by (simp add: plot_loop_single cov series_marker_count del: plot_loop.simps)
  have leg: "legend_elements (enumerate 0 ts) = Inr ?hs" and len: "length ?hs = length ts"
    by (simp_all add: legend_elements_char)
  have style: "\<forall>N<length ts. label (?hs ! N) = ts ! N
          \<and> line_color (?hs ! N) = CN N
          \<and> line_marker (?hs ! N) = markers_list ! (N mod 6)
          \<and> cycle_index c (line_color (?hs ! N)) = N mod c
          \<and> (\<forall>a\<in>set (fst (plot_loop df ws [] [(N, ts ! N)])).
                artist_color a = line_color (?hs ! N)
              \<and> (is_marker a \<longrightarrow> marker_shape a = Some (line_marker (?hs ! N)))
              \<and> (\<exists>r\<in>set df. threshold r = ts ! N \<and> xy a = (ifp_rate r, det_ratio r)))"
  proof (intro allI impI)
    fix N
    assume "N < length ts"
    then have h: "?hs ! N = \<lparr>label = ts ! N, line_color = CN N, line_marker = markers_list ! (N mod 6)\<rparr>"
      by (simp add: nth_enumerate_eq)
    show "label (?hs ! N) = ts ! N
          \<and> line_color (?hs ! N) = CN N
          \<and> line_marker (?hs ! N) = markers_list ! (N mod 6)
          \<and> cycle_index c (line_color (?hs ! N)) = N mod c
          \<and> (\<forall>a\<in>set (fst (plot_loop df ws [] [(N, ts ! N)])).
                artist_color a = line_color (?hs ! N)
              \<and> (is_marker a \<longrightarrow> marker_shape a = Some (line_marker (?hs ! N)))
              \<and> (\<exists>r\<in>set df. threshold r = ts ! N \<and> xy a = (ifp_rate r, det_ratio r)))"
      unfolding h using series_style [of _ df ws N "ts ! N"]
      by (simp add: plot_loop_single del: plot_loop.simps)
  qed
  show ?thesis
    by (rule conjI, simp add: markers_list_def, rule exI [of _ ?k], rule exI [of _ ?hs])
       (intro conjI k dec full cnt leg len style)
qed

theorem threshold_style_binding_witness:
  "1 < length (thresholds (round_threshold np_around1 example_table))
   \<and> Marker 10 (95 / 100) (CN 1) ''v''
       \<in> set (fst (plot_loop (round_threshold np_around1 example_table)
                     (window_sizes (round_threshold np_around1 example_table)) []
                     [(1, thresholds (round_threshold np_around1 example_table) ! 1)]))
   \<and> is_marker (Marker 10 (95 / 100) (CN 1) ''v'')
   \<and> (\<exists>hs. legend_elements (enumerate 0 (thresholds (round_threshold np_around1 example_table)))
               = Inr hs
          \<and> label (hs ! 1) = 9 / 10
          \<and> line_color (hs ! 1) = CN 1
          \<and> line_marker (hs ! 1) = ''v''
          \<and> cycle_index 10 (line_color (hs ! 1)) = 1
          \<and> artist_color (Marker 10 (95 / 100) (CN 1) ''v'') = line_color (hs ! 1)
          \<and> marker_shape (Marker 10 (95 / 100) (CN 1) ''v'') = Some (line_marker (hs ! 1)))"
proof -
  let ?df = "round_threshold np_around1 example_table"
  let ?a = "Marker 10 (95 / 100) (CN 1) ''v''"
  have n: "1 < length (thresholds ?df)"
    by (simp add: example_index)
  have a: "?a \<in> set (fst (plot_loop ?df (window_sizes ?df) [] [(1, thresholds ?df ! 1)]))"
    unfolding example_index example_pass by simp
  have m: "is_marker ?a"
    by simp
  from threshold_style_binding [where df = ?df and c = 10]
  obtain hs where leg: "legend_elements (enumerate 0 (thresholds ?df)) = Inr hs"
    and style: "\<forall>N<length (thresholds ?df).
            label (hs ! N) = thresholds ?df ! N
          \<and> line_color (hs ! N) = CN N
          \<and> line_marker (hs ! N) = markers_list ! (N mod 6)
          \<and> cycle_index 10 (line_color (hs ! N)) = N mod 10
          \<and> (\<forall>a\<in>set (fst (plot_loop ?df (window_sizes ?df) [] [(N, thresholds ?df ! N)])).
                artist_color a = line_color (hs ! N)
              \<and> (is_marker a \<longrightarrow> marker_shape a = Some (line_marker (hs ! N)))
              \<and> (\<exists>r\<in>set ?df. threshold r = thresholds ?df ! N \<and> xy a = (ifp_rate r, det_ratio r)))"
    by (elim exE conjE)
  from style n have s1: "label (hs ! 1) = thresholds ?df ! 1
          \<and> line_color (hs ! 1) = CN 1
          \<and> line_marker (hs ! 1) = markers_list ! (1 mod 6)
          \<and> cycle_index 10 (line_color (hs ! 1)) = 1 mod 10
          \<and> (\<forall>a\<in>set (fst (plot_loop ?df (window_sizes ?df) [] [(1, thresholds ?df ! 1)])).
                artist_color a = line_color (hs ! 1)
              \<and> (is_marker a \<longrightarrow> marker_shape a = Some (line_marker (hs ! 1))))"
    by blast
  with a m have s2: "artist_color ?a = line_color (hs ! 1)
      \<and> marker_shape ?a = Some (line_marker (hs ! 1))"
    by blast
  have "thresholds ?df ! 1 = 9 / 10" and "markers_list ! (1 mod 6) = ''v''"
    by (simp_all add: example_index markers_list_def)
  with s1 s2 leg n a m show ?thesis
    by (intro conjI exI [of _ hs]) simp_all
qed

section \<open>The output directory\<close>

text \<open>
  Claim C8. Creating the output directory is idempotent. When \<^verbatim>\<open>./plots\<close> is a
  directory the creation step returns the file system as it is, the run does not raise
  \<open>FileExistsError\<close>, and once the plot is complete the save is applied to the file
  system as it was found. When \<^verbatim>\<open>./plots\<close> is absent the run does not raise
  \<open>FileExistsError\<close> either; unless a fault of the operating system strikes, the
  creation step creates the directory, and once the plot is complete the directory
  exists after the run and the save was applied to the file system holding the new
  directory. A run that raises nothing has created or accepted the directory first and
  saved the figure into it. A creation step that raises leaves the file system as it
  was found.
\<close>

theorem mkdir_idempotent:
  "(plots_dir p = Directory entry \<longrightarrow>
        mkdir_exist_ok p = Inr p
      \<and> raised (main around1 table p) \<noteq> Some FileExistsError
      \<and> (raised (main around1 table p) \<noteq> Some IndexError \<longrightarrow>
           (plots (main around1 table p), raised (main around1 table p))
             = savefig p (fig (main around1 table p))))
   \<and> (plots_dir p = Absent \<longrightarrow>
        raised (main around1 table p) \<noteq> Some FileExistsError
      \<and> (mkdir_fault p = None \<longrightarrow>
           mkdir_exist_ok p = Inr (p\<lparr>plots_dir := Directory NoFile\<rparr>))
      \<and> (mkdir_fault p = None \<and> raised (main around1 table p) \<noteq> Some IndexError \<longrightarrow>
           (\<exists>entry'. plots_dir (plots (main around1 table p)) = Directory entry')
         \<and> (plots (main around1 table p), raised (main around1 table p))
             = savefig (p\<lparr>plots_dir := Directory NoFile\<rparr>) (fig (main around1 table p))))
   \<and> (raised (main around1 table p) = None \<longrightarrow>
        (\<exists>p'. mkdir_exist_ok p = Inr p'
          \<and> savefig p' (fig (main around1 table p)) = (plots (main around1 table p), None)
          \<and> plots_dir (plots (main around1 table p))
              = Directory (File (fig (main around1 table p)))))
   \<and> (\<forall>e. mkdir_exist_ok p = Inl e \<longrightarrow>
        plots (main around1 table p) = p \<and> raised (main around1 table p) \<in> {Some e, Some IndexError})"
proof (cases "raised (main around1 table p) = Some IndexError")
  case True
  then have "plots (main around1 table p) = p"
    by (auto simp: main_def Let_def legend_elements_char mkdir_exist_ok_def savefig_def
        split: prod.splits option.splits sum.splits plots_path.splits os_fault.splits if_splits)
  with True show ?thesis
    by (auto simp: mkdir_exist_ok_def)
next
  case False
  note m = main_after_plot [OF False]
  let ?F = "fig (main around1 table p)"
  have r: "raised (main around1 table p) =
      (case mkdir_exist_ok p of Inl e \<Rightarrow> Some e | Inr p' \<Rightarrow> snd (savefig p' ?F))"
    and q: "plots (main around1 table p) =
      (case mkdir_exist_ok p of Inl e \<Rightarrow> p | Inr p' \<Rightarrow> fst (savefig p' ?F))"
    by (subst m, simp split: sum.splits)+
  show ?thesis
    unfolding r q
    by (cases "plots_dir p"; cases "mkdir_fault p"; cases "save_fault p")
       (auto simp: mkdir_exist_ok_def savefig_def split: os_fault.splits)
qed

theorem mkdir_idempotent_witness:
  "plots_dir fresh_fs = Absent
   \<and> mkdir_fault fresh_fs = None
   \<and> raised (main np_around1 example_table fresh_fs) = None
   \<and> plots_dir (plots (main np_around1 example_table fresh_fs))
       = Directory (File (fig (main np_around1 example_table fresh_fs)))
   \<and> raised (main np_around1 example_table (plots (main np_around1 example_table fresh_fs)))
       \<noteq> Some FileExistsError
   \<and> raised (main np_around1 example_table (plots (main np_around1 example_table fresh_fs)))
       = None
   \<and> plots (main np_around1 example_table (plots (main np_around1 example_table fresh_fs)))
       = plots (main np_around1 example_table fresh_fs)"
proof -
  let ?run1 = "main np_around1 example_table fresh_fs"
  let ?run2 = "main np_around1 example_table (plots ?run1)"
  have a: "plots_dir fresh_fs = Absent" and f: "mkdir_fault fresh_fs = None"
    by (simp_all add: fresh_fs_def)
  have r1: "raised ?run1 = None"
    by (simp add: example_first_run)
  have created: "plots_dir (plots ?run1) = Directory (File (fig ?run1))"
    using mkdir_idempotent [of fresh_fs NoFile np_around1 example_table] r1 by blast
  have r2: "raised ?run2 = None" and same: "plots ?run2 = plots ?run1"
    by (simp_all add: example_first_run example_second_run)
  have "raised ?run2 \<noteq> Some FileExistsError"
    using mkdir_idempotent [of "plots ?run1" "File (fig ?run1)" np_around1 example_table] created
    by blast
  with a f r1 created r2 same show ?thesis
    by blast
qed

end
